theory Spec2Isabelle
  imports Complex_Main "HOL-Library.Word"
begin

section \<open>Currency codes: upper-casing and case-insensitive comparison\<close>

text \<open>
  The package compares ISO codes with Go's \<^verbatim>\<open>strings.ToUpper\<close> and
  \<^verbatim>\<open>strings.EqualFold\<close>, which follow the Unicode case tables. A Go string is a
  sequence of bytes, modelled as a \<^typ>\<open>string\<close>. The two library functions are
  parameters of the model, the fields of a record \<open>S\<close> that every operation takes:
  nothing is assumed about them, so what is proved holds for Go's functions on every
  string, ASCII or not.
\<close>

record strings =
  ToUpper :: "string \<Rightarrow> string"
  EqualFold :: "string \<Rightarrow> string \<Rightarrow> bool"

text \<open>
  The source upper-cases each code twice, \<^verbatim>\<open>strings.ToUpper(strings.ToUpper(x))\<close>.
\<close>

abbreviation upper :: "strings \<Rightarrow> string \<Rightarrow> string" where
  "upper S x \<equiv> ToUpper S (ToUpper S x)"

text \<open>
  For concrete runs the record is instantiated with what the two functions do on
  ASCII text, the fast path of both: \<^verbatim>\<open>ToUpper\<close> subtracts \<^verbatim>\<open>'a' - 'A'\<close> from
  every byte between \<^verbatim>\<open>'a'\<close> and \<^verbatim>\<open>'z'\<close>, and \<^verbatim>\<open>EqualFold\<close> walks both
  strings byte by byte. This instance is Go's behaviour on strings of bytes below 128
  only, and it is used only on such strings.
\<close>

definition upperByte :: "char \<Rightarrow> char" where
  "upperByte c =
     (let n = (of_char c :: nat)
      in if 97 \<le> n \<and> n \<le> 122 then char_of (n - 32) else c)"

definition ToUpperASCII :: "string \<Rightarrow> string" where
  "ToUpperASCII s = map upperByte s"

definition foldEqByte :: "char \<Rightarrow> char \<Rightarrow> bool" where
  "foldEqByte s t =
     (if t = s then True
      else (let sr = min (of_char s :: nat) (of_char t);
                tr = max (of_char s :: nat) (of_char t)
            in 65 \<le> sr \<and> sr \<le> 90 \<and> tr = sr + 32))"

fun EqualFoldASCII :: "string \<Rightarrow> string \<Rightarrow> bool" where
  "EqualFoldASCII [] [] = True"
| "EqualFoldASCII (sr # s) (tr # t) = (if foldEqByte sr tr then EqualFoldASCII s t else False)"
| "EqualFoldASCII _ _ = False"

definition ascii :: strings where
  "ascii = \<lparr> ToUpper = ToUpperASCII, EqualFold = EqualFoldASCII \<rparr>"

section \<open>Decimals\<close>

text \<open>
  Rates and amounts are \<^verbatim>\<open>decimal.Decimal\<close> values of the shopspring library,
  arbitrary-precision decimal fractions. A decimal is modelled by the rational number
  it denotes. \<^verbatim>\<open>Add\<close> and \<^verbatim>\<open>Mul\<close> are exact. \<^verbatim>\<open>Div\<close> is not: it panics on a
  zero divisor and otherwise is \<^verbatim>\<open>DivRound\<close> at \<^verbatim>\<open>DivisionPrecision\<close> = 16
  digits, which takes the quotient truncated to 16 decimal places together with its
  remainder, and moves the quotient one unit of the last place away from zero when
  twice the remainder, counted in units of the last place, reaches the divisor. \<^verbatim>\<open>RoundCeil\<close> rounds towards plus
  infinity to a multiple of ten to the power minus \<^verbatim>\<open>places\<close>, where
  \<^verbatim>\<open>places\<close> is the value of an \<^verbatim>\<open>int32\<close> and may be negative.
\<close>

type_synonym Decimal = rat

text \<open>
  A call ends in one of three ways: it returns a value, it returns an error, or it
  panics. The errors are the package's \<^verbatim>\<open>ErrEmptyCurrencySource\<close> and
  \<^verbatim>\<open>ErrBaseCurrencyNotFound\<close>, the message \<^verbatim>\<open>currency %s not found\<close> filled
  with a code, the unnamed error \<^verbatim>\<open>currency object empty. shouldnt be\<close> of
  \<^verbatim>\<open>NewQuote\<close>, and the errors of \<^verbatim>\<open>encoding/json\<close>, kept as their message.
\<close>

datatype panic = NilPointerDereference | DivisionByZero

datatype error =
    ErrEmptyCurrencySource
  | ErrBaseCurrencyNotFound
  | ErrCurrencyNotFound string
  | ErrCurrencyObjectEmpty
  | ErrJSON string

datatype 'a outcome = Return 'a | Fail error | Panic panic

definition DivisionPrecision :: nat where
  "DivisionPrecision = 16"

definition truncInt :: "rat \<Rightarrow> int" where
  "truncInt x = (if 0 \<le> x then \<lfloor>x\<rfloor> else \<lceil>x\<rceil>)"

definition QuoRem :: "Decimal \<Rightarrow> Decimal \<Rightarrow> nat \<Rightarrow> Decimal \<times> Decimal" where
  "QuoRem d d2 precision =
     (let q = of_int (truncInt (d / d2 * 10 ^ precision)) / 10 ^ precision
      in (q, d - d2 * q))"

definition DivRound :: "Decimal \<Rightarrow> Decimal \<Rightarrow> nat \<Rightarrow> Decimal" where
  "DivRound d d2 precision =
     (let (q, r) = QuoRem d d2 precision
      in if 2 * \<bar>r\<bar> * 10 ^ precision < \<bar>d2\<bar> then q
         else if sgn d * sgn d2 < 0 then q - 1 / 10 ^ precision
         else q + 1 / 10 ^ precision)"

definition Div :: "Decimal \<Rightarrow> Decimal \<Rightarrow> Decimal outcome" where
  "Div d d2 = (if d2 = 0 then Panic DivisionByZero else Return (DivRound d d2 DivisionPrecision))"

definition Mul :: "Decimal \<Rightarrow> Decimal \<Rightarrow> Decimal" where
  "Mul d d2 = d * d2"

definition Add :: "Decimal \<Rightarrow> Decimal \<Rightarrow> Decimal" where
  "Add d d2 = d + d2"

definition pow10 :: "int \<Rightarrow> rat" where
  "pow10 e = (if 0 \<le> e then 10 ^ nat e else 1 / 10 ^ nat (- e))"

definition RoundCeil :: "Decimal \<Rightarrow> int \<Rightarrow> Decimal" where
  "RoundCeil d places = of_int \<lceil>d * pow10 places\<rceil> / pow10 places"

section \<open>The registry\<close>

text \<open>
  \<^verbatim>\<open>Precision\<close> is a Go \<^verbatim>\<open>int\<close>, 64 bits wide on the usual platforms. The
  read-write mutex of \<^verbatim>\<open>Currencies\<close> guards reads only and is left out. A
  \<^verbatim>\<open>*Currencies\<close> may be nil: it is a \<^typ>\<open>'a option\<close>.
\<close>

record Currency =
  ISOCode :: string
  Precision :: "64 word"
  BuyRate :: Decimal
  SellRate :: Decimal

record Currencies =
  currencies :: "Currency list"

text \<open>
  Several claims are about which calls an operation makes and in which order. Each
  operation therefore returns, next to its outcome, the list of the calls of
  \<^verbatim>\<open>FindCurrency\<close> and \<^verbatim>\<open>CalculateRate\<close> made while it ran, in order, each with the
  arguments it received.
\<close>

datatype call = FindCurrencyCall string | CalculateRateCall string string string

type_synonym 'a traced = "'a outcome \<times> call list"

definition ret :: "'a \<Rightarrow> 'a traced" where
  "ret x = (Return x, [])"

definition fail :: "error \<Rightarrow> 'a traced" where
  "fail err = (Fail err, [])"

definition pure :: "'a outcome \<Rightarrow> 'a traced" where
  "pure r = (r, [])"

definition called :: "call \<Rightarrow> 'a traced \<Rightarrow> 'a traced" where
  "called c m = (fst m, c # snd m)"

text \<open>
  \<open>after m handler cont\<close> is Go's \<^verbatim>\<open>x, err := m; if err != nil { handler }; cont\<close>:
  a panic in \<open>m\<close> ends the run, an error goes to the handler, a value to the rest.
\<close>

definition after :: "'a traced \<Rightarrow> (error \<Rightarrow> 'b traced) \<Rightarrow> ('a \<Rightarrow> 'b traced) \<Rightarrow> 'b traced" where
  "after m handler cont =
     (case m of
        (Panic p, l) \<Rightarrow> (Panic p, l)
      | (Fail err, l) \<Rightarrow> (fst (handler err), l @ snd (handler err))
      | (Return x, l) \<Rightarrow> (fst (cont x), l @ snd (cont x)))"

fun FindCurrency_loop :: "strings \<Rightarrow> Currency list \<Rightarrow> string \<Rightarrow> Currency option" where
  "FindCurrency_loop S [] code = None"
| "FindCurrency_loop S (c # cs) code =
     (if EqualFold S (ISOCode c) code then Some c else FindCurrency_loop S cs code)"

definition FindCurrency :: "strings \<Rightarrow> Currencies option \<Rightarrow> string \<Rightarrow> Currency traced" where
  "FindCurrency S c code =
     called (FindCurrencyCall code)
       (case c of
          None \<Rightarrow> pure (Panic NilPointerDereference)
        | Some r \<Rightarrow>
            if length (currencies r) = 0 then fail ErrEmptyCurrencySource
            else (case FindCurrency_loop S (currencies r) code of
                    Some cur \<Rightarrow> ret cur
                  | None \<Rightarrow> fail (ErrCurrencyNotFound code)))"

section \<open>The rate calculator\<close>

definition CalculateRate ::
  "strings \<Rightarrow> Currencies option \<Rightarrow> string \<Rightarrow> string \<Rightarrow> string \<Rightarrow> Decimal traced" where
  "CalculateRate S c baseCurrency0 from0 to0 =
     called (CalculateRateCall baseCurrency0 from0 to0)
       (let baseCurrency = ToUpper S (ToUpper S baseCurrency0);
            from = ToUpper S (ToUpper S from0);
            to = ToUpper S (ToUpper S to0)
        in if from = to then ret 1
           else
             after (FindCurrency S c baseCurrency) (\<lambda>err. fail ErrBaseCurrencyNotFound) (\<lambda>_.
               if from = baseCurrency then
                 after (FindCurrency S c to) fail (\<lambda>toCurrency.
                   ret (SellRate toCurrency))
               else if to = baseCurrency then
                 after (FindCurrency S c from) fail (\<lambda>fromCurrency.
                   pure (Div 1 (BuyRate fromCurrency)))
               else
                 after (FindCurrency S c from) fail (\<lambda>fromCurrency.
                   after (FindCurrency S c to) fail (\<lambda>toCurrency.
                     after (pure (Div 1 (BuyRate fromCurrency))) fail (\<lambda>q.
                       ret (Mul q (SellRate toCurrency)))))))"

section \<open>The quote builder\<close>

text \<open>
  \<^verbatim>\<open>RoundCeil\<close> takes an \<^verbatim>\<open>int32\<close>; \<^verbatim>\<open>NewQuote\<close> converts the 64-bit
  \<^verbatim>\<open>Precision\<close> with \<^verbatim>\<open>int32(...)\<close>, which keeps the low 32 bits. The
  reading of the wall clock, \<^verbatim>\<open>time.Now()\<close>, is a parameter.
\<close>

definition int32 :: "64 word \<Rightarrow> 32 word" where
  "int32 x = word_of_int (sint x)"

record Quote =
  BaseCurrency :: string
  FromCurrency :: string
  FromAmount :: Decimal
  Fee :: Decimal
  AmountToDeduct :: Decimal
  Rate :: Decimal
  ToCurrency :: string
  FinalAmount :: Decimal
  Date :: nat

definition NewQuote ::
  "strings \<Rightarrow> Currencies option \<Rightarrow> string \<Rightarrow> string \<Rightarrow> string \<Rightarrow> Decimal \<Rightarrow> Decimal \<Rightarrow> nat
     \<Rightarrow> Quote traced" where
  "NewQuote S rateSource baseCurrency fromCurrency toCurrency fromAmount fee now =
     (if rateSource = None then fail ErrCurrencyObjectEmpty
      else
        after (CalculateRate S rateSource baseCurrency fromCurrency toCurrency) fail (\<lambda>rate.
          after (FindCurrency S rateSource fromCurrency) fail (\<lambda>infoFrom.
            after (FindCurrency S rateSource toCurrency) fail (\<lambda>infoTo.
              ret \<lparr> BaseCurrency = baseCurrency,
                    FromCurrency = fromCurrency,
                    FromAmount = fromAmount,
                    Fee = fee,
                    AmountToDeduct = RoundCeil (Add fromAmount fee) (sint (int32 (Precision infoFrom))),
                    Rate = rate,
                    ToCurrency = toCurrency,
                    FinalAmount = RoundCeil (Mul fromAmount rate) (sint (int32 (Precision infoTo))),
                    Date = now \<rparr>))))"

section \<open>Building a registry\<close>






section \<open>The registries of the test suite\<close>

text \<open>
  The currencies of \<^verbatim>\<open>TestCalculateRate\<close>, and two variants of its euro: one with
  all rates zero, as a source without rate fields decodes, and one whose precision does
  not fit in 32 bits.
\<close>

definition testUSD :: Currency where
  "testUSD = \<lparr> ISOCode = ''USD'', Precision = 2, BuyRate = 1, SellRate = 1 \<rparr>"

definition testEUR :: Currency where
  "testEUR = \<lparr> ISOCode = ''EUR'', Precision = 2, BuyRate = 85 / 100, SellRate = 118 / 100 \<rparr>"

definition testJPY :: Currency where
  "testJPY = \<lparr> ISOCode = ''JPY'', Precision = 2, BuyRate = 81 / 10000, SellRate = 12345 / 100 \<rparr>"

definition zeroEUR :: Currency where
  "zeroEUR = \<lparr> ISOCode = ''EUR'', Precision = 0, BuyRate = 0, SellRate = 0 \<rparr>"

definition wideEUR :: Currency where
  "wideEUR = \<lparr> ISOCode = ''EUR'', Precision = 4294967296, BuyRate = 1, SellRate = 1 \<rparr>"

definition testCurrencies :: Currencies where
  "testCurrencies = \<lparr> currencies = [testUSD, testEUR, testJPY] \<rparr>"

definition zeroCurrencies :: Currencies where
  "zeroCurrencies = \<lparr> currencies = [testUSD, zeroEUR, testJPY] \<rparr>"

definition wideCurrencies :: Currencies where
  "wideCurrencies = \<lparr> currencies = [testUSD, wideEUR] \<rparr>"



section \<open>Case folding\<close>

lemma of_char_lt_256: "(of_char c :: nat) < 256"
proof -
  have "(of_char c :: nat) mod 256 = of_char c" by (rule of_char_mod_256)
  moreover have "(of_char c :: nat) mod 256 < 256" by simp
  ultimately show ?thesis by simp
qed

lemma of_char_upperByte:
  "(of_char (upperByte c) :: nat) =
     (if 97 \<le> (of_char c :: nat) \<and> (of_char c :: nat) \<le> 122 then of_char c - 32 else of_char c)"
proof -
  have "(of_char c :: nat) - 32 < 256"
    using of_char_lt_256 [of c] by arith
  then have "((of_char c :: nat) - 32) mod 256 = of_char c - 32"
    by (rule mod_less)
  then show ?thesis
    by (simp add: upperByte_def Let_def)
qed

lemma upperByte_idem: "upperByte (upperByte c) = upperByte c"
proof -
  have "(of_char (upperByte (upperByte c)) :: nat) = of_char (upperByte c)"
    unfolding of_char_upperByte by auto
  then show ?thesis by simp
qed

lemma ToUpperASCII_idem: "ToUpperASCII (ToUpperASCII s) = ToUpperASCII s"
  by (simp add: ToUpperASCII_def upperByte_idem)

lemma foldEqByte_iff: "foldEqByte a b \<longleftrightarrow> upperByte a = upperByte b"
proof (cases "a = b")
  case True
  then show ?thesis by (simp add: foldEqByte_def)
next
  case False
  define m :: nat where "m = of_char a"
  define n :: nat where "n = of_char b"
  have ne: "m \<noteq> n" using False by (simp add: m_def n_def)
  have "upperByte a = upperByte b \<longleftrightarrow> (of_char (upperByte a) :: nat) = of_char (upperByte b)"
    by simp
  also have "\<dots> \<longleftrightarrow>
      (if 97 \<le> m \<and> m \<le> 122 then m - 32 else m) = (if 97 \<le> n \<and> n \<le> 122 then n - 32 else n)"
    unfolding of_char_upperByte m_def n_def ..
  also have "\<dots> \<longleftrightarrow> (65 \<le> min m n \<and> min m n \<le> 90 \<and> max m n = min m n + 32)"
    using ne by (auto simp: min_def max_def)
  also have "\<dots> \<longleftrightarrow> foldEqByte a b"
    using False by (auto simp: foldEqByte_def Let_def m_def n_def)
  finally show ?thesis by simp
qed

text \<open>On ASCII text, folding and upper-casing induce the same equivalence.\<close>

lemma EqualFoldASCII_iff: "EqualFoldASCII s t \<longleftrightarrow> ToUpperASCII s = ToUpperASCII t"
  by (induction s t rule: EqualFoldASCII.induct) (simp_all add: ToUpperASCII_def foldEqByte_iff)

lemma ToUpperASCII_usd: "ToUpperASCII ''usd'' = ''USD''"
  by code_simp

lemma ToUpperASCII_USD: "ToUpperASCII ''USD'' = ''USD''"
  by code_simp

lemma ToUpperASCII_EUR: "ToUpperASCII ''EUR'' = ''EUR''"
  by code_simp

lemma ToUpperASCII_JPY: "ToUpperASCII ''JPY'' = ''JPY''"
  by code_simp

lemma ToUpperASCII_ZZZ: "ToUpperASCII ''ZZZ'' = ''ZZZ''"
  by code_simp

lemmas ToUpperASCII_examples = ToUpperASCII_usd ToUpperASCII_USD ToUpperASCII_EUR ToUpperASCII_JPY ToUpperASCII_ZZZ

lemma ToUpper_ascii: "ToUpper ascii = ToUpperASCII"
  by (simp add: ascii_def)

lemma EqualFold_ascii: "EqualFold ascii s t \<longleftrightarrow> ToUpperASCII s = ToUpperASCII t"
  by (simp add: ascii_def EqualFoldASCII_iff)

lemmas ascii_simps = ToUpper_ascii EqualFold_ascii ToUpperASCII_idem ToUpperASCII_examples

section \<open>Sequencing\<close>

lemma after_Return: "after (Return x, l) handler cont = (fst (cont x), l @ snd (cont x))"
  by (simp add: after_def)

lemma after_Fail: "after (Fail err, l) handler cont = (fst (handler err), l @ snd (handler err))"
  by (simp add: after_def)

lemma after_Panic: "after (Panic p, l) handler cont = (Panic p, l)"
  by (simp add: after_def)

lemmas traced_simps =
  after_Return after_Fail after_Panic ret_def fail_def pure_def called_def


section \<open>Lookup\<close>

text \<open>The loop returns the first record whose code folds to the requested one.\<close>

lemma FindCurrency_loop_find:
  "FindCurrency_loop S cs code = find (\<lambda>c. EqualFold S (ISOCode c) code) cs"
  by (induction cs) simp_all

lemma FindCurrency_found:
  assumes "find (\<lambda>c. EqualFold S (ISOCode c) code) (currencies r) = Some F"
  shows "FindCurrency S (Some r) code = (Return F, [FindCurrencyCall code])"
proof -
  have "currencies r \<noteq> []" using assms by auto
  then show ?thesis
    using assms by (simp add: FindCurrency_def FindCurrency_loop_find traced_simps)
qed

lemma FindCurrency_not_found:
  assumes "find (\<lambda>c. EqualFold S (ISOCode c) code) (currencies r) = None"
    and "currencies r \<noteq> []"
  shows "FindCurrency S (Some r) code = (Fail (ErrCurrencyNotFound code), [FindCurrencyCall code])"
  using assms by (simp add: FindCurrency_def FindCurrency_loop_find traced_simps)

lemma FindCurrency_empty:
  assumes "currencies r = []"
  shows "FindCurrency S (Some r) code = (Fail ErrEmptyCurrencySource, [FindCurrencyCall code])"
  using assms by (simp add: FindCurrency_def traced_simps)

lemma FindCurrency_nil:
  "FindCurrency S None code = (Panic NilPointerDereference, [FindCurrencyCall code])"
  by (simp add: FindCurrency_def traced_simps)

lemma FindCurrency_absent:
  assumes "find (\<lambda>c. EqualFold S (ISOCode c) code) (currencies r) = None"
  shows "\<exists>err. FindCurrency S (Some r) code = (Fail err, [FindCurrencyCall code])
           \<and> err \<noteq> ErrBaseCurrencyNotFound"
proof (cases "currencies r = []")
  case True
  then show ?thesis by (simp add: FindCurrency_empty)
next
  case False
  then show ?thesis using assms by (simp add: FindCurrency_not_found)
qed


text \<open>
  Lookups in the registries of the test suite, under the ASCII instance: \<open>u\<close> is
  the requested code in upper case.
\<close>

lemma find_testCurrencies:
  "find (\<lambda>c. ToUpperASCII (ISOCode c) = u) (currencies testCurrencies)
     = (if u = ''USD'' then Some testUSD
        else if u = ''EUR'' then Some testEUR
        else if u = ''JPY'' then Some testJPY else None)"
  by (auto simp: testCurrencies_def testUSD_def testEUR_def testJPY_def ascii_simps)

lemma find_zeroCurrencies:
  "find (\<lambda>c. ToUpperASCII (ISOCode c) = u) (currencies zeroCurrencies)
     = (if u = ''USD'' then Some testUSD
        else if u = ''EUR'' then Some zeroEUR
        else if u = ''JPY'' then Some testJPY else None)"
  by (auto simp: zeroCurrencies_def testUSD_def zeroEUR_def testJPY_def ascii_simps)

lemma find_wideCurrencies:
  "find (\<lambda>c. ToUpperASCII (ISOCode c) = u) (currencies wideCurrencies)
     = (if u = ''USD'' then Some testUSD
        else if u = ''EUR'' then Some wideEUR else None)"
  by (auto simp: wideCurrencies_def testUSD_def wideEUR_def ascii_simps)

lemmas find_examples = find_testCurrencies find_zeroCurrencies find_wideCurrencies

section \<open>Division\<close>

lemma Div_zero: "Div d 0 = Panic DivisionByZero"
  by (simp add: Div_def)

lemma Div_nonzero: "d2 \<noteq> 0 \<Longrightarrow> Div d d2 = Return (DivRound d d2 DivisionPrecision)"
  by (simp add: Div_def)

text \<open>A quotient that fits in the precision is returned as it is.\<close>

lemma DivRound_exact:
  assumes "d2 \<noteq> 0" and "d / d2 * 10 ^ precision = of_int k"
  shows "DivRound d d2 precision = d / d2"
proof -
  have t: "truncInt (of_int k) = k"
    by (simp add: truncInt_def)
  have "of_int k / 10 ^ precision = d / d2"
    using assms(2) [symmetric] by simp
  then have q: "QuoRem d d2 precision = (d / d2, 0)"
    using assms by (simp add: QuoRem_def t)
  show ?thesis
    using assms(1) by (simp add: DivRound_def q)
qed

text \<open>Otherwise the quotient is rounded: a third is not a decimal of 16 places.\<close>

lemma Div_one_third: "Div 1 3 = Return (3333333333333333 / 10 ^ 16)"
  by code_simp

lemma Div_test_EUR: "Div 1 (BuyRate testEUR) = Return (11764705882352941 / 10 ^ 16)"
  by code_simp

text \<open>
  The rates that \<^verbatim>\<open>TestCalculateRate\<close> expects after \<^verbatim>\<open>RoundCeil(2)\<close>: 1.18 from
  the euro to the base and 145.24 from the euro to the yen.
\<close>

lemma test_rate_EUR_USD: "RoundCeil (11764705882352941 / 10 ^ 16) 2 = 118 / 100"
  by code_simp

lemma test_rate_EUR_JPY: "RoundCeil (11764705882352941 / 10 ^ 16 * (12345 / 100)) 2 = 14524 / 100"
  by code_simp


section \<open>Precision and rounding\<close>







section \<open>Rates\<close>

text \<open>
  In what follows a code is found in a registry when the lookup of the upper-cased
  code, which is the lookup \<^verbatim>\<open>CalculateRate\<close> makes, returns a record: the first
  record whose ISO code folds to it. Two codes are equal after upper-casing when the
  upper-cased strings that \<^verbatim>\<open>CalculateRate\<close> compares are equal.
\<close>

text \<open>
  C1. When \<open>from\<close> and \<open>to\<close> are equal after upper-casing, \<^verbatim>\<open>CalculateRate\<close>
  returns 1 with no error, and the only call made is that of \<^verbatim>\<open>CalculateRate\<close>
  itself: no lookup takes place. This holds for every registry, a nil one included, and
  for every base code, whether the registry has it or not.
\<close>

theorem CalculateRate_same_currency:
  assumes "ToUpper S from = ToUpper S to"
  shows "CalculateRate S c baseCurrency from to
           = (Return 1, [CalculateRateCall baseCurrency from to])"
  using assms by (simp add: CalculateRate_def traced_simps)

theorem CalculateRate_same_currency_witness:
  "ToUpper ascii ''usd'' = ToUpper ascii ''USD''
   \<and> find (\<lambda>c. EqualFold ascii (ISOCode c) (upper ascii ''ZZZ'')) (currencies testCurrencies) = None
   \<and> CalculateRate ascii (Some testCurrencies) ''ZZZ'' ''usd'' ''USD''
       = (Return 1, [CalculateRateCall ''ZZZ'' ''usd'' ''USD''])"
proof -
  have h: "ToUpper ascii ''usd'' = ToUpper ascii ''USD''"
    by (simp add: ascii_simps)
  have "find (\<lambda>c. EqualFold ascii (ISOCode c) (upper ascii ''ZZZ'')) (currencies testCurrencies) = None"
    by (simp add: find_examples ascii_simps)
  then show ?thesis
    using h CalculateRate_same_currency [OF h, of "Some testCurrencies" "''ZZZ''"] by simp
qed

text \<open>
  C3. With the base code found in the registry, \<open>from\<close> equal to the base after
  upper-casing and \<open>to\<close> a different code found in the registry, \<^verbatim>\<open>CalculateRate\<close>
  returns the sell rate of the record found for \<open>to\<close>, after looking up the base and
  then \<open>to\<close>.
\<close>

theorem CalculateRate_base_to_target:
  assumes "find (\<lambda>c. EqualFold S (ISOCode c) (upper S baseCurrency)) (currencies r) = Some B"
    and "find (\<lambda>c. EqualFold S (ISOCode c) (upper S to)) (currencies r) = Some T"
    and "upper S from = upper S baseCurrency"
    and "upper S to \<noteq> upper S baseCurrency"
  shows "CalculateRate S (Some r) baseCurrency from to
           = (Return (SellRate T),
              [CalculateRateCall baseCurrency from to,
               FindCurrencyCall (upper S baseCurrency), FindCurrencyCall (upper S to)])"
proof -
  note b = FindCurrency_found [OF assms(1)]
  note t = FindCurrency_found [OF assms(2)]
  have "upper S baseCurrency \<noteq> upper S to" using assms(4) by simp
  then show ?thesis
    using assms(3) by (simp add: CalculateRate_def b t traced_simps)
qed

theorem CalculateRate_base_to_target_witness:
  "CalculateRate ascii (Some testCurrencies) ''USD'' ''USD'' ''EUR''
     = (Return (118 / 100),
        [CalculateRateCall ''USD'' ''USD'' ''EUR'', FindCurrencyCall ''USD'', FindCurrencyCall ''EUR''])"
proof -
  have b: "find (\<lambda>c. EqualFold ascii (ISOCode c) (upper ascii ''USD'')) (currencies testCurrencies)
             = Some testUSD"
    by (simp add: find_examples ascii_simps)
  have t: "find (\<lambda>c. EqualFold ascii (ISOCode c) (upper ascii ''EUR'')) (currencies testCurrencies)
             = Some testEUR"
    by (simp add: find_examples ascii_simps)
  have f: "upper ascii ''USD'' = upper ascii ''USD''" by simp
  have n: "upper ascii ''EUR'' \<noteq> upper ascii ''USD''" by (simp add: ascii_simps)
  show ?thesis
    using CalculateRate_base_to_target [OF b t f n]
    by (simp add: ascii_simps testEUR_def)
qed

text \<open>
  C6. With \<open>from\<close> and \<open>to\<close> different after upper-casing and the base code not found
  in the registry, \<^verbatim>\<open>CalculateRate\<close> fails with \<^verbatim>\<open>ErrBaseCurrencyNotFound\<close> after
  the one lookup of the base. That error is not a \<^verbatim>\<open>currency ... not found\<close> error,
  and it is not the error the lookup itself gave.
\<close>

theorem CalculateRate_base_absent:
  assumes "find (\<lambda>c. EqualFold S (ISOCode c) (upper S baseCurrency)) (currencies r) = None"
    and "upper S from \<noteq> upper S to"
  shows "CalculateRate S (Some r) baseCurrency from to
           = (Fail ErrBaseCurrencyNotFound,
              [CalculateRateCall baseCurrency from to, FindCurrencyCall (upper S baseCurrency)])
         \<and> ErrBaseCurrencyNotFound \<noteq> ErrCurrencyNotFound code
         \<and> (\<exists>err. fst (FindCurrency S (Some r) (upper S baseCurrency)) = Fail err
                \<and> err \<noteq> ErrBaseCurrencyNotFound)"
proof -
  from FindCurrency_absent [OF assms(1)]
  obtain err where e: "FindCurrency S (Some r) (upper S baseCurrency)
                         = (Fail err, [FindCurrencyCall (upper S baseCurrency)])"
    and ne: "err \<noteq> ErrBaseCurrencyNotFound"
    by blast
  have "CalculateRate S (Some r) baseCurrency from to
           = (Fail ErrBaseCurrencyNotFound,
              [CalculateRateCall baseCurrency from to, FindCurrencyCall (upper S baseCurrency)])"
    using assms(2) by (simp add: CalculateRate_def e traced_simps)
  then show ?thesis using e ne by simp
qed

theorem CalculateRate_base_absent_witness:
  "CalculateRate ascii (Some testCurrencies) ''ZZZ'' ''USD'' ''EUR''
     = (Fail ErrBaseCurrencyNotFound,
        [CalculateRateCall ''ZZZ'' ''USD'' ''EUR'', FindCurrencyCall ''ZZZ''])
   \<and> fst (FindCurrency ascii (Some testCurrencies) ''ZZZ'') = Fail (ErrCurrencyNotFound ''ZZZ'')"
proof -
  have a: "find (\<lambda>c. EqualFold ascii (ISOCode c) (upper ascii ''ZZZ'')) (currencies testCurrencies)
             = None"
    by (simp add: find_examples ascii_simps)
  have n: "upper ascii ''USD'' \<noteq> upper ascii ''EUR''" by (simp add: ascii_simps)
  have a': "find (\<lambda>c. EqualFold ascii (ISOCode c) ''ZZZ'') (currencies testCurrencies) = None"
    by (simp add: find_examples ascii_simps)
  have "currencies testCurrencies \<noteq> []" by (simp add: testCurrencies_def)
  then have "fst (FindCurrency ascii (Some testCurrencies) ''ZZZ'') = Fail (ErrCurrencyNotFound ''ZZZ'')"
    using a' by (simp add: FindCurrency_not_found)
  then show ?thesis
    using CalculateRate_base_absent [OF a n] by (simp add: ascii_simps)
qed

text \<open>
  C4. With the base code found in the registry, \<open>to\<close> equal to the base after
  upper-casing, \<open>from\<close> a different code found in the registry and the buy rate of the
  record found for \<open>from\<close> not zero, \<^verbatim>\<open>CalculateRate\<close> returns the decimal
  quotient of 1 by that buy rate, as \<^verbatim>\<open>Div\<close> computes it: rounded to 16 decimal
  places, and equal to the exact quotient whenever that has no more than 16 places.
\<close>

theorem CalculateRate_target_to_base:
  assumes "find (\<lambda>c. EqualFold S (ISOCode c) (upper S baseCurrency)) (currencies r) = Some B"
    and "find (\<lambda>c. EqualFold S (ISOCode c) (upper S from)) (currencies r) = Some F"
    and "upper S to = upper S baseCurrency"
    and "upper S from \<noteq> upper S baseCurrency"
    and "BuyRate F \<noteq> 0"
  shows "CalculateRate S (Some r) baseCurrency from to
           = (Return (DivRound 1 (BuyRate F) DivisionPrecision),
              [CalculateRateCall baseCurrency from to,
               FindCurrencyCall (upper S baseCurrency), FindCurrencyCall (upper S from)])
         \<and> (1 / BuyRate F * 10 ^ DivisionPrecision \<in> \<int>
              \<longrightarrow> fst (CalculateRate S (Some r) baseCurrency from to) = Return (1 / BuyRate F))"
proof -
  note b = FindCurrency_found [OF assms(1)]
  note f = FindCurrency_found [OF assms(2)]
  have main: "CalculateRate S (Some r) baseCurrency from to
           = (Return (DivRound 1 (BuyRate F) DivisionPrecision),
              [CalculateRateCall baseCurrency from to,
               FindCurrencyCall (upper S baseCurrency), FindCurrencyCall (upper S from)])"
    using assms(3,4,5) by (simp add: CalculateRate_def b f Div_nonzero traced_simps)
  have "DivRound 1 (BuyRate F) DivisionPrecision = 1 / BuyRate F"
    if "1 / BuyRate F * 10 ^ DivisionPrecision \<in> \<int>"
  proof -
    from that obtain k where "1 / BuyRate F * 10 ^ DivisionPrecision = of_int k"
      by (auto elim: Ints_cases)
    then show ?thesis by (rule DivRound_exact [OF assms(5)])
  qed
  then show ?thesis using main by simp
qed

theorem CalculateRate_target_to_base_witness:
  "BuyRate testEUR \<noteq> 0
   \<and> CalculateRate ascii (Some testCurrencies) ''USD'' ''EUR'' ''USD''
     = (Return (11764705882352941 / 10 ^ 16),
        [CalculateRateCall ''USD'' ''EUR'' ''USD'', FindCurrencyCall ''USD'', FindCurrencyCall ''EUR''])"
proof -
  have b: "find (\<lambda>c. EqualFold ascii (ISOCode c) (upper ascii ''USD'')) (currencies testCurrencies)
             = Some testUSD"
    by (simp add: find_examples ascii_simps)
  have f: "find (\<lambda>c. EqualFold ascii (ISOCode c) (upper ascii ''EUR'')) (currencies testCurrencies)
             = Some testEUR"
    by (simp add: find_examples ascii_simps)
  have t: "upper ascii ''USD'' = upper ascii ''USD''" by simp
  have n: "upper ascii ''EUR'' \<noteq> upper ascii ''USD''" by (simp add: ascii_simps)
  have z: "BuyRate testEUR \<noteq> 0" by (simp add: testEUR_def)
  have d: "DivRound 1 (BuyRate testEUR) DivisionPrecision = 11764705882352941 / 10 ^ 16"
    using Div_test_EUR z by (simp add: Div_def)
  show ?thesis
    using z CalculateRate_target_to_base [OF b f t n z]
    by (simp add: ascii_simps d)
qed

theorem CalculateRate_target_to_base_zero_rate:
  "find (\<lambda>c. EqualFold ascii (ISOCode c) (upper ascii ''USD'')) (currencies zeroCurrencies)
     = Some testUSD
   \<and> find (\<lambda>c. EqualFold ascii (ISOCode c) (upper ascii ''EUR'')) (currencies zeroCurrencies)
     = Some zeroEUR
   \<and> upper ascii ''EUR'' \<noteq> upper ascii ''USD''
   \<and> CalculateRate ascii (Some zeroCurrencies) ''USD'' ''EUR'' ''USD''
       = (Panic DivisionByZero,
          [CalculateRateCall ''USD'' ''EUR'' ''USD'', FindCurrencyCall ''USD'', FindCurrencyCall ''EUR''])"
proof -
  have b: "find (\<lambda>c. EqualFold ascii (ISOCode c) ''USD'') (currencies zeroCurrencies) = Some testUSD"
    by (simp add: find_examples ascii_simps)
  have f: "find (\<lambda>c. EqualFold ascii (ISOCode c) ''EUR'') (currencies zeroCurrencies) = Some zeroEUR"
    by (simp add: find_examples ascii_simps)
  have z: "BuyRate zeroEUR = 0" by (simp add: zeroEUR_def)
  have "CalculateRate ascii (Some zeroCurrencies) ''USD'' ''EUR'' ''USD''
       = (Panic DivisionByZero,
          [CalculateRateCall ''USD'' ''EUR'' ''USD'', FindCurrencyCall ''USD'', FindCurrencyCall ''EUR''])"
    by (simp add: CalculateRate_def ToUpper_ascii ToUpperASCII_examples
          FindCurrency_found [OF b] FindCurrency_found [OF f] z Div_zero traced_simps)
  then show ?thesis
    by (simp add: find_examples ascii_simps)
qed




text \<open>
  C10. There is no guard on the divisor. With the base code found in the registry and
  \<open>from\<close> a different code whose record has buy rate zero, \<^verbatim>\<open>CalculateRate\<close>
  panics with a division by zero, and so returns neither a rate nor an error value,
  both when \<open>to\<close> is the base and when \<open>to\<close> is a third code found in the registry.
\<close>

theorem CalculateRate_zero_buy_rate:
  assumes "find (\<lambda>c. EqualFold S (ISOCode c) (upper S baseCurrency)) (currencies r) = Some B"
    and "find (\<lambda>c. EqualFold S (ISOCode c) (upper S from)) (currencies r) = Some F"
    and "BuyRate F = 0"
    and "upper S from \<noteq> upper S baseCurrency"
    and "upper S to = upper S baseCurrency
         \<or> (upper S to \<noteq> upper S from
             \<and> find (\<lambda>c. EqualFold S (ISOCode c) (upper S to)) (currencies r) = Some T)"
  shows "fst (CalculateRate S (Some r) baseCurrency from to) = Panic DivisionByZero"
proof -
  note b = FindCurrency_found [OF assms(1)]
  note f = FindCurrency_found [OF assms(2)]
  show ?thesis
  proof (cases "upper S to = upper S baseCurrency")
    case True
    then show ?thesis
      using assms(3,4) by (simp add: CalculateRate_def b f Div_zero traced_simps)
  next
    case False
    then have ne: "upper S to \<noteq> upper S from"
      and "find (\<lambda>c. EqualFold S (ISOCode c) (upper S to)) (currencies r) = Some T"
      using assms(5) by simp_all
    note t = FindCurrency_found [OF this(2)]
    have "upper S from \<noteq> upper S to" using ne by simp
    then show ?thesis
      using False assms(3,4) by (simp add: CalculateRate_def b f t Div_zero traced_simps)
  qed
qed

theorem CalculateRate_zero_buy_rate_witness:
  "BuyRate zeroEUR = 0
   \<and> fst (CalculateRate ascii (Some zeroCurrencies) ''USD'' ''EUR'' ''USD'') = Panic DivisionByZero
   \<and> fst (CalculateRate ascii (Some zeroCurrencies) ''USD'' ''EUR'' ''JPY'') = Panic DivisionByZero"
proof -
  have b: "find (\<lambda>c. EqualFold ascii (ISOCode c) (upper ascii ''USD'')) (currencies zeroCurrencies)
             = Some testUSD"
    by (simp add: find_examples ascii_simps)
  have f: "find (\<lambda>c. EqualFold ascii (ISOCode c) (upper ascii ''EUR'')) (currencies zeroCurrencies)
             = Some zeroEUR"
    by (simp add: find_examples ascii_simps)
  have z: "BuyRate zeroEUR = 0" by (simp add: zeroEUR_def)
  have n: "upper ascii ''EUR'' \<noteq> upper ascii ''USD''" by (simp add: ascii_simps)
  have c1: "upper ascii ''USD'' = upper ascii ''USD''
         \<or> (upper ascii ''USD'' \<noteq> upper ascii ''EUR''
             \<and> find (\<lambda>c. EqualFold ascii (ISOCode c) (upper ascii ''USD'')) (currencies zeroCurrencies)
                 = Some testUSD)"
    by simp
  have c2: "upper ascii ''JPY'' = upper ascii ''USD''
         \<or> (upper ascii ''JPY'' \<noteq> upper ascii ''EUR''
             \<and> find (\<lambda>c. EqualFold ascii (ISOCode c) (upper ascii ''JPY'')) (currencies zeroCurrencies)
                 = Some testJPY)"
    by (simp add: find_examples ascii_simps)
  show ?thesis
    using z CalculateRate_zero_buy_rate [OF b f z n c1] CalculateRate_zero_buy_rate [OF b f z n c2]
    by simp
qed

section \<open>Quotes\<close>

text \<open>
  C9. Called with a nil registry, \<^verbatim>\<open>NewQuote\<close> fails with its missing-registry error
  and no quote, whatever the other arguments, and has made no call of
  \<^verbatim>\<open>CalculateRate\<close> or \<^verbatim>\<open>FindCurrency\<close> by then.
\<close>

theorem NewQuote_nil_registry:
  "NewQuote S None baseCurrency from to amount fee now = (Fail ErrCurrencyObjectEmpty, [])"
  by (simp add: NewQuote_def fail_def)




section \<open>Case-insensitive lookup\<close>

text \<open>
  C8. \<^verbatim>\<open>EqualFold\<close> compares its arguments rune by rune up to Unicode case folding,
  so it is symmetric and transitive, and two codes differ only in letter case when it
  holds of them. On a registry that is not empty two such codes are looked up alike:
  when some record's ISO code folds to the code, both lookups return the first such
  record; otherwise both fail with the not-found error, each carrying the code that
  this lookup was given.
\<close>

theorem FindCurrency_case_insensitive:
  assumes "currencies r \<noteq> []"
    and "EqualFold S c1 c2"
    and "\<forall>a b. EqualFold S a b \<longrightarrow> EqualFold S b a"
    and "\<forall>a b c. EqualFold S a b \<and> EqualFold S b c \<longrightarrow> EqualFold S a c"
  shows "case find (\<lambda>c. EqualFold S (ISOCode c) c1) (currencies r) of
           Some F \<Rightarrow> fst (FindCurrency S (Some r) c1) = Return F
                     \<and> fst (FindCurrency S (Some r) c2) = Return F
         | None \<Rightarrow> fst (FindCurrency S (Some r) c1) = Fail (ErrCurrencyNotFound c1)
                   \<and> fst (FindCurrency S (Some r) c2) = Fail (ErrCurrencyNotFound c2)"
proof -
  have "EqualFold S c2 c1" using assms(2,3) by blast
  then have "EqualFold S x c1 \<longleftrightarrow> EqualFold S x c2" for x
    using assms(2,4) by blast
  then have same: "find (\<lambda>c. EqualFold S (ISOCode c) c2) (currencies r)
                     = find (\<lambda>c. EqualFold S (ISOCode c) c1) (currencies r)"
    by simp
  show ?thesis
  proof (cases "find (\<lambda>c. EqualFold S (ISOCode c) c1) (currencies r)")
    case None
    then show ?thesis
      using same assms(1) by (simp add: FindCurrency_not_found)
  next
    case (Some F)
    then show ?thesis
      using same by (simp add: FindCurrency_found)
  qed
qed

theorem FindCurrency_case_insensitive_witness:
  "currencies testCurrencies \<noteq> [] \<and> EqualFold ascii ''usd'' ''USD''
   \<and> fst (FindCurrency ascii (Some testCurrencies) ''usd'') = Return testUSD
   \<and> fst (FindCurrency ascii (Some testCurrencies) ''USD'') = Return testUSD"
proof -
  have n: "currencies testCurrencies \<noteq> []" by (simp add: testCurrencies_def)
  have e: "EqualFold ascii ''usd'' ''USD''" by (simp add: ascii_simps)
  have s: "\<forall>a b. EqualFold ascii a b \<longrightarrow> EqualFold ascii b a"
    by (simp add: EqualFold_ascii)
  have t: "\<forall>a b c. EqualFold ascii a b \<and> EqualFold ascii b c \<longrightarrow> EqualFold ascii a c"
    by (simp add: EqualFold_ascii)
  have f: "find (\<lambda>c. EqualFold ascii (ISOCode c) ''usd'') (currencies testCurrencies) = Some testUSD"
    by (simp add: find_examples ascii_simps)
  have "fst (FindCurrency ascii (Some testCurrencies) ''usd'') = Return testUSD
        \<and> fst (FindCurrency ascii (Some testCurrencies) ''USD'') = Return testUSD"
    using FindCurrency_case_insensitive [OF n e s t] by (simp only: f option.case)
  then show ?thesis
    using n e by blast
qed

section \<open>Construction\<close>







end

